theory Spec2Isabelle
  imports Main
begin

section \<open>JavaScript strings and errors\<close>

text \<open>
  A JavaScript string is a sequence of UTF-16 code units. A code unit is modelled by its
  number, so that the CJK range of the slug pattern and the percent-encoding of
  \<^verbatim>\<open>encodeURIComponent\<close> can be written down; ASCII literals of the source are
  written \<open>js ''...''\<close>.
\<close>

type_synonym jsstring = "nat list"

definition js :: "string \<Rightarrow> jsstring" where
  "js s = map of_char s"

text \<open>
  A thrown exception is a value: \<open>JsError msg\<close> stands for \<^verbatim>\<open>throw new Error(msg)\<close>
  (and for whatever a plugin hook or a library call throws), \<open>URIError\<close> for the
  exception of \<^verbatim>\<open>encodeURIComponent\<close> on a lone surrogate.
\<close>

datatype js_error = JsError jsstring | URIError

section \<open>Document model (types.ts)\<close>

datatype doc_type = Markdown | Api | Component

record DocNode =
  doc_path :: jsstring
  doc_title :: jsstring
  doc_content :: jsstring
  doc_type :: doc_type
  doc_meta :: "(jsstring \<rightharpoonup> jsstring) option"

text \<open>
  \<^verbatim>\<open>GenerateContext\<close>: the resolved configuration (kept abstract), the file list and
  the generated documents.
\<close>

record 'cfg GenerateContext =
  ctx_config :: 'cfg
  ctx_files :: "jsstring list"
  ctx_docs :: "DocNode list"

text \<open>
  \<^verbatim>\<open>DocsPlugin\<close>: a name and optional hooks; an absent hook is \<open>None\<close>. A hook may
  throw (\<open>Inl\<close>). The \<^verbatim>\<open>config\<close> hook returns a configuration or nothing
  (\<^verbatim>\<open>void\<close>, here \<open>None\<close>); an observer hook returns nothing, or throws
  (\<open>Some e\<close>).
\<close>

record ('cfg, 'rcfg) DocsPlugin =
  plugin_name :: jsstring
  plugin_config :: "('cfg \<Rightarrow> js_error + 'cfg option) option"
  plugin_transformMarkdown :: "(jsstring \<Rightarrow> jsstring \<Rightarrow> js_error + jsstring) option"
  plugin_beforeGenerate :: "('rcfg GenerateContext \<Rightarrow> js_error option) option"
  plugin_afterGenerate :: "('rcfg GenerateContext \<Rightarrow> js_error option) option"

section \<open>Plugin manager (plugin-manager.ts)\<close>

text \<open>
  The manager keeps the list \<open>plugins\<close>; \<^verbatim>\<open>register\<close> pushes a plugin at its end
  and \<^verbatim>\<open>registerBatch\<close> registers the plugins of a list one after the other.
\<close>

definition register ::
  "('cfg, 'rcfg) DocsPlugin list \<Rightarrow> ('cfg, 'rcfg) DocsPlugin \<Rightarrow> ('cfg, 'rcfg) DocsPlugin list" where
  "register plugins plugin = plugins @ [plugin]"

definition registerBatch ::
  "('cfg, 'rcfg) DocsPlugin list \<Rightarrow> ('cfg, 'rcfg) DocsPlugin list
     \<Rightarrow> ('cfg, 'rcfg) DocsPlugin list" where
  "registerBatch plugins new = foldl register plugins new"

text \<open>
  \<^verbatim>\<open>PluginManager.config\<close>: the \<^verbatim>\<open>for\<close> loop over the registered plugins, with
  the running value \<open>result\<close>. \<^verbatim>\<open>if (plugin.config)\<close> skips a plugin without the
  hook; \<^verbatim>\<open>if (modified)\<close> keeps the running value when the hook returned nothing.
\<close>

fun PluginManager_config ::
  "('cfg, 'rcfg) DocsPlugin list \<Rightarrow> 'cfg \<Rightarrow> js_error + 'cfg" where
  "PluginManager_config [] result = Inr result"
| "PluginManager_config (plugin # plugins) result =
     (case plugin_config plugin of
        None \<Rightarrow> PluginManager_config plugins result
      | Some hook \<Rightarrow>
          (case hook result of
             Inl e \<Rightarrow> Inl e
           | Inr None \<Rightarrow> PluginManager_config plugins result
           | Inr (Some modified) \<Rightarrow> PluginManager_config plugins modified))"

text \<open>\<^verbatim>\<open>PluginManager.transformMarkdown\<close>: the same loop, the hook's result always taken.\<close>

fun PluginManager_transformMarkdown ::
  "('cfg, 'rcfg) DocsPlugin list \<Rightarrow> jsstring \<Rightarrow> jsstring \<Rightarrow> js_error + jsstring" where
  "PluginManager_transformMarkdown [] result file = Inr result"
| "PluginManager_transformMarkdown (plugin # plugins) result file =
     (case plugin_transformMarkdown plugin of
        None \<Rightarrow> PluginManager_transformMarkdown plugins result file
      | Some hook \<Rightarrow>
          (case hook result file of
             Inl e \<Rightarrow> Inl e
           | Inr r \<Rightarrow> PluginManager_transformMarkdown plugins r file))"

subsection \<open>The chain as the specification words it\<close>

text \<open>
  The specification describes the two transform hooks as an ordered list of functions
  reduced left to right. One step of that reduction, for one plugin: a plugin without
  the hook passes the value on, a \<^verbatim>\<open>config\<close> hook that returns nothing passes the
  value on, and a hook that throws ends the chain with its exception.
\<close>

definition config_step ::
  "js_error + 'cfg \<Rightarrow> ('cfg, 'rcfg) DocsPlugin \<Rightarrow> js_error + 'cfg" where
  "config_step acc plugin =
     (case acc of
        Inl e \<Rightarrow> Inl e
      | Inr c \<Rightarrow>
          (case plugin_config plugin of
             None \<Rightarrow> Inr c
           | Some hook \<Rightarrow>
               (case hook c of
                  Inl e \<Rightarrow> Inl e
                | Inr None \<Rightarrow> Inr c
                | Inr (Some c') \<Rightarrow> Inr c')))"

definition transform_step ::
  "jsstring \<Rightarrow> js_error + jsstring \<Rightarrow> ('cfg, 'rcfg) DocsPlugin \<Rightarrow> js_error + jsstring" where
  "transform_step file acc plugin =
     (case acc of
        Inl e \<Rightarrow> Inl e
      | Inr s \<Rightarrow>
          (case plugin_transformMarkdown plugin of
             None \<Rightarrow> Inr s
           | Some hook \<Rightarrow> hook s file))"


section \<open>String built-ins\<close>

text \<open>
  The white space of \<^verbatim>\<open>String.prototype.trim\<close> and of the pattern \<^verbatim>\<open>\s\<close>:
  the WhiteSpace and LineTerminator code points of ECMAScript.
\<close>

definition isWhiteSpace :: "nat \<Rightarrow> bool" where
  "isWhiteSpace c =
     (c = 9 \<or> c = 10 \<or> c = 11 \<or> c = 12 \<or> c = 13 \<or> c = 32 \<or> c = 160 \<or> c = 5760
      \<or> (8192 \<le> c \<and> c \<le> 8202) \<or> c = 8232 \<or> c = 8233 \<or> c = 8239 \<or> c = 8287
      \<or> c = 12288 \<or> c = 65279)"

definition trim :: "jsstring \<Rightarrow> jsstring" where
  "trim s = rev (dropWhile isWhiteSpace (rev (dropWhile isWhiteSpace s)))"

text \<open>\<^verbatim>\<open>s.split(c)\<close> for a separator of one code unit: always at least one piece.\<close>

fun split_on :: "nat \<Rightarrow> jsstring \<Rightarrow> jsstring list" where
  "split_on c [] = [[]]"
| "split_on c (x # xs) =
     (if x = c then [] # split_on c xs
      else (case split_on c xs of
              [] \<Rightarrow> [[x]]
            | piece # pieces \<Rightarrow> (x # piece) # pieces))"

text \<open>\<^verbatim>\<open>pieces.join(sep)\<close>.\<close>

fun join_with :: "jsstring \<Rightarrow> jsstring list \<Rightarrow> jsstring" where
  "join_with sep [] = []"
| "join_with sep [piece] = piece"
| "join_with sep (piece # pieces) = piece @ sep @ join_with sep pieces"

definition starts_with :: "jsstring \<Rightarrow> jsstring \<Rightarrow> bool" where
  "starts_with p s = (take (length p) s = p)"

definition ends_with :: "jsstring \<Rightarrow> jsstring \<Rightarrow> bool" where
  "ends_with p s = (length p \<le> length s \<and> drop (length s - length p) s = p)"

text \<open>
  \<^verbatim>\<open>x || d\<close> on an optional string: \<^verbatim>\<open>undefined\<close> and the empty string are
  falsy.
\<close>

definition or_else :: "jsstring option \<Rightarrow> jsstring \<Rightarrow> jsstring" where
  "or_else v d = (case v of None \<Rightarrow> d | Some s \<Rightarrow> if s = [] then d else s)"

text \<open>
  \<^verbatim>\<open>String.prototype.toUpperCase\<close> and \<^verbatim>\<open>toLowerCase\<close> follow the Unicode case
  tables, which are not part of this development: the functions that call them take the
  built-in as the parameter \<open>uc\<close> or \<open>lc\<close>. On ASCII text the built-ins are the two
  functions below, which the concrete evaluations use.
\<close>

definition ascii_toUpperCase :: "jsstring \<Rightarrow> jsstring" where
  "ascii_toUpperCase s = map (\<lambda>c. if 97 \<le> c \<and> c \<le> 122 then c - 32 else c) s"

definition ascii_toLowerCase :: "jsstring \<Rightarrow> jsstring" where
  "ascii_toLowerCase s = map (\<lambda>c. if 65 \<le> c \<and> c \<le> 90 then c + 32 else c) s"

section \<open>Paths (node:path, POSIX)\<close>

text \<open>
  The last segment of a path, trailing slashes ignored, as \<^verbatim>\<open>path.basename\<close> and
  \<^verbatim>\<open>path.extname\<close> find it.
\<close>

definition last_segment :: "jsstring \<Rightarrow> jsstring" where
  "last_segment p = rev (takeWhile (\<lambda>c. c \<noteq> 47) (dropWhile (\<lambda>c. c = 47) (rev p)))"

text \<open>
  \<^verbatim>\<open>path.extname\<close>: from the last dot of the last segment to its end; empty when the
  segment has no dot, when its only dot is its first character, or when it is
  \<^verbatim>\<open>..\<close>.
\<close>

definition extname :: "jsstring \<Rightarrow> jsstring" where
  "extname p =
     (let seg = last_segment p;
          after_dot = rev (takeWhile (\<lambda>c. c \<noteq> 46) (rev seg))
      in if 46 \<notin> set seg \<or> length after_dot + 1 = length seg \<or> seg = [46, 46] then []
         else 46 # after_dot)"

text \<open>
  \<^verbatim>\<open>path.basename(p, ext)\<close>: the last segment, without \<open>ext\<close> when the segment
  ends with it and is longer than it. (The source only calls it with
  \<open>ext = extname p\<close>.)
\<close>

definition basename :: "jsstring \<Rightarrow> jsstring \<Rightarrow> jsstring" where
  "basename p ext =
     (let seg = last_segment p
      in if ext \<noteq> [] \<and> ends_with ext seg \<and> length ext < length seg
         then take (length seg - length ext) seg
         else seg)"

section \<open>Annotation and component descriptions (types.ts)\<close>

datatype api_kind = KFunction | KClass | KInterface | KType | KVariable | KEnum

text \<open>The kind as the string the source stores (\<^verbatim>\<open>'function'\<close>, \<^verbatim>\<open>'class'\<close>, ...).\<close>

fun kind_text :: "api_kind \<Rightarrow> jsstring" where
  "kind_text KFunction = js ''function''"
| "kind_text KClass = js ''class''"
| "kind_text KInterface = js ''interface''"
| "kind_text KType = js ''type''"
| "kind_text KVariable = js ''variable''"
| "kind_text KEnum = js ''enum''"

record TypeDoc =
  td_name :: jsstring
  td_type :: jsstring
  td_isGeneric :: "bool option"

record ParameterDoc =
  param_name :: jsstring
  param_type :: TypeDoc
  param_description :: "jsstring option"
  param_optional :: "bool option"
  param_defaultValue :: "jsstring option"

record SourceLocation =
  loc_file :: jsstring
  loc_line :: nat
  loc_column :: "nat option"

text \<open>
  \<^verbatim>\<open>ApiDocNode\<close>; an optional field of the interface is an \<open>option\<close>. A tag value is
  one string or a list of strings.
\<close>

datatype tag_value = TagOne jsstring | TagMany "jsstring list"

datatype ApiDocNode = ApiDocNode
  (api_name: jsstring)
  (api_kind: api_kind)
  (api_description: "jsstring option")
  (api_signature: "jsstring option")
  (api_parameters: "ParameterDoc list option")
  (api_returns: "TypeDoc option")
  (api_examples: "jsstring list option")
  (api_tags: "(jsstring \<times> tag_value) list option")
  (api_source: "SourceLocation option")
  (api_children: "ApiDocNode list option")

datatype prop_type = TypeText jsstring | TypeUnion "jsstring list"

record PropDoc =
  prop_name :: jsstring
  prop_type :: prop_type
  prop_description :: "jsstring option"
  prop_required :: "bool option"
  prop_default :: "jsstring option"

record EventDoc =
  event_name :: jsstring
  event_description :: "jsstring option"
  event_payload :: "TypeDoc option"

record SlotDoc =
  slot_name :: jsstring
  slot_description :: "jsstring option"
  slot_scoped :: "bool option"

record ComponentDoc =
  comp_name :: jsstring
  comp_description :: "jsstring option"
  comp_props :: "PropDoc list option"
  comp_events :: "EventDoc list option"
  comp_slots :: "SlotDoc list option"
  comp_source :: "SourceLocation option"

section \<open>Document generator (doc-generator.ts)\<close>

subsection \<open>Front matter and titles\<close>

text \<open>
  The group of \<^verbatim>\<open>/^---\n([\s\S]+?)\n---/\<close>, applied to the text after the opening
  \<^verbatim>\<open>---\n\<close>: the shortest non-empty prefix that is followed by a line break and
  three hyphens; no match when there is none.
\<close>

fun frontmatter_body :: "jsstring \<Rightarrow> jsstring option" where
  "frontmatter_body [] = None"
| "frontmatter_body (x # xs) =
     (if starts_with (10 # js ''---'') xs then Some [x]
      else map_option ((#) x) (frontmatter_body xs))"

definition isQuote :: "nat \<Rightarrow> bool" where
  "isQuote c = (c = 39 \<or> c = 34)"

text \<open>\<^verbatim>\<open>value.replace(/^['"]|['"]$/g, '')\<close>: one quote off the front, one off the end.\<close>

definition strip_quotes :: "jsstring \<Rightarrow> jsstring" where
  "strip_quotes v =
     (let v1 = (case v of [] \<Rightarrow> [] | c # r \<Rightarrow> if isQuote c then r else v)
      in if v1 \<noteq> [] \<and> isQuote (last v1) then butlast v1 else v1)"

record Frontmatter =
  fm_title :: jsstring
  fm_meta :: "(jsstring \<rightharpoonup> jsstring) option"

text \<open>
  The body of the \<^verbatim>\<open>forEach\<close> over the lines of the block, on the pair of the
  running \<open>title\<close> and \<open>meta\<close>: a line is split at its colons; with a non-empty key
  and at least one colon, the key \<^verbatim>\<open>title\<close> sets the title and any other key is
  stored in \<open>meta\<close>.
\<close>

definition frontmatter_line ::
  "jsstring \<times> (jsstring \<rightharpoonup> jsstring) \<Rightarrow> jsstring \<Rightarrow> jsstring \<times> (jsstring \<rightharpoonup> jsstring)" where
  "frontmatter_line acc line =
     (case split_on 58 line of
        [] \<Rightarrow> acc
      | key # valueParts \<Rightarrow>
          if key \<noteq> [] \<and> valueParts \<noteq> []
          then (let val = trim (join_with [58] valueParts);
                    trimmedKey = trim key
                in if trimmedKey = js ''title''
                   then (strip_quotes val, snd acc)
                   else (fst acc, (snd acc)(trimmedKey \<mapsto> strip_quotes val)))
          else acc)"

definition extractFrontmatter :: "jsstring \<Rightarrow> Frontmatter" where
  "extractFrontmatter content =
     (if starts_with (js ''---'' @ [10]) content
      then (case frontmatter_body (drop 4 content) of
              None \<Rightarrow> \<lparr>fm_title = [], fm_meta = None\<rparr>
            | Some frontmatter \<Rightarrow>
                (let r = foldl frontmatter_line ([], Map.empty) (split_on 10 frontmatter)
                 in \<lparr>fm_title = fst r, fm_meta = Some (snd r)\<rparr>))
      else \<lparr>fm_title = [], fm_meta = None\<rparr>)"

text \<open>
  \<^verbatim>\<open>getTitleFromPath\<close>: the file name without its extension, split at hyphens, each
  word with its first character in upper case, joined by spaces.
\<close>

definition getTitleFromPath :: "(jsstring \<Rightarrow> jsstring) \<Rightarrow> jsstring \<Rightarrow> jsstring" where
  "getTitleFromPath uc filePath =
     join_with [32]
       (map (\<lambda>word. uc (take 1 word) @ drop 1 word)
            (split_on 45 (basename filePath (extname filePath))))"

subsection \<open>Rendering an API page\<close>

definition escape_char :: "nat \<Rightarrow> jsstring" where
  "escape_char m =
     (if m = 38 then js ''&amp;''
      else if m = 60 then js ''&lt;''
      else if m = 62 then js ''&gt;''
      else if m = 34 then js ''&quot;''
      else if m = 39 then js ''&#039;''
      else [m])"

text \<open>\<^verbatim>\<open>text.replace(/[&<>"']/g, (m) => map[m])\<close>.\<close>

definition escapeHtml :: "jsstring \<Rightarrow> jsstring" where
  "escapeHtml text = concat (map escape_char text)"

text \<open>One row of the parameter table.\<close>

definition api_param_row :: "ParameterDoc \<Rightarrow> jsstring" where
  "api_param_row param =
     js ''<tr>''
     @ js ''<td><code>'' @ param_name param @ js ''</code>''
       @ (if param_optional param = Some True
          then js '' <em>('' @ [21487, 36873] @ js '')</em>'' else [])
       @ js ''</td>''
     @ js ''<td><code>'' @ td_type (param_type param) @ js ''</code></td>''
     @ js ''<td>'' @ or_else (param_description param) (js ''-'') @ js ''</td>''
     @ js ''<td>''
       @ (case param_defaultValue param of
            None \<Rightarrow> js ''-''
          | Some d \<Rightarrow> if d = [] then js ''-'' else js ''<code>'' @ d @ js ''</code>'')
       @ js ''</td>''
     @ js ''</tr>''"

text \<open>
  What one pass of the loop over \<open>apiNodes\<close> appends to \<open>html\<close>, one definition
  for each group of \<^verbatim>\<open>html +=\<close> statements: the heading of the item, the
  description, the signature, the parameter table, the return type and the examples.
  Only the signature and the examples go through \<open>escapeHtml\<close>.
\<close>

definition item_heading :: "ApiDocNode \<Rightarrow> jsstring" where
  "item_heading node =
     js ''<div class=\"api-item api-'' @ kind_text (api_kind node) @ js ''\">''
     @ js ''<h3 id=\"'' @ api_name node @ js ''\">'' @ api_name node @ js ''</h3>''"

definition item_description :: "ApiDocNode \<Rightarrow> jsstring" where
  "item_description node =
     (case api_description node of
        None \<Rightarrow> []
      | Some description \<Rightarrow>
          if description = [] then []
          else js ''<p class=\"description\">'' @ description @ js ''</p>'')"

definition item_signature :: "ApiDocNode \<Rightarrow> jsstring" where
  "item_signature node =
     (case api_signature node of
        None \<Rightarrow> []
      | Some signature \<Rightarrow>
          if signature = [] then []
          else js ''<pre><code>'' @ escapeHtml signature @ js ''</code></pre>'')"

definition item_parameters :: "ApiDocNode \<Rightarrow> jsstring" where
  "item_parameters node =
     (case api_parameters node of
        None \<Rightarrow> []
      | Some ps \<Rightarrow>
          if ps = [] then []
          else js ''<h4>'' @ [21442, 25968] @ js ''</h4>''
            @ js ''<table class=\"params-table\">''
            @ js ''<thead><tr><th>'' @ [21517, 31216] @ js ''</th><th>'' @ [31867, 22411]
              @ js ''</th><th>'' @ [25551, 36848] @ js ''</th><th>'' @ [40664, 35748, 20540]
              @ js ''</th></tr></thead>''
            @ js ''<tbody>''
            @ concat (map api_param_row ps)
            @ js ''</tbody></table>'')"

definition item_returns :: "ApiDocNode \<Rightarrow> jsstring" where
  "item_returns node =
     (case api_returns node of
        None \<Rightarrow> []
      | Some r \<Rightarrow>
          js ''<h4>'' @ [36820, 22238, 20540] @ js ''</h4>''
          @ js ''<p><code>'' @ td_type r @ js ''</code></p>'')"

definition example_block :: "jsstring \<Rightarrow> jsstring" where
  "example_block example = js ''<pre><code>'' @ escapeHtml example @ js ''</code></pre>''"

definition item_examples :: "ApiDocNode \<Rightarrow> jsstring" where
  "item_examples node =
     (case api_examples node of
        None \<Rightarrow> []
      | Some es \<Rightarrow>
          if es = [] then []
          else js ''<h4>'' @ [31034, 20363] @ js ''</h4>'' @ concat (map example_block es))"

definition api_item :: "ApiDocNode \<Rightarrow> jsstring" where
  "api_item node =
     item_heading node @ item_description node @ item_signature node
     @ item_parameters node @ item_returns node @ item_examples node @ js ''</div>''"

fun renderApiDoc_loop :: "jsstring \<Rightarrow> ApiDocNode list \<Rightarrow> jsstring" where
  "renderApiDoc_loop html [] = html"
| "renderApiDoc_loop html (node # apiNodes) = renderApiDoc_loop (html @ api_item node) apiNodes"

definition renderApiDoc :: "ApiDocNode list \<Rightarrow> jsstring" where
  "renderApiDoc apiNodes =
     renderApiDoc_loop (js ''<div class=\"api-doc\">'') apiNodes @ js ''</div>''"

subsection \<open>Rendering a component page\<close>

definition prop_row :: "PropDoc \<Rightarrow> jsstring" where
  "prop_row prop =
     js ''<tr>''
     @ js ''<td><code>'' @ prop_name prop @ js ''</code></td>''
     @ js ''<td><code>''
       @ (case prop_type prop of
            TypeUnion ts \<Rightarrow> join_with (js '' | '') ts
          | TypeText t \<Rightarrow> t)
       @ js ''</code></td>''
     @ js ''<td>'' @ (if prop_required prop = Some True then [10003] else js ''-'') @ js ''</td>''
     @ js ''<td>''
       @ (case prop_default prop of
            None \<Rightarrow> js ''-''
          | Some d \<Rightarrow> if d = [] then js ''-'' else js ''<code>'' @ d @ js ''</code>'')
       @ js ''</td>''
     @ js ''<td>'' @ or_else (prop_description prop) (js ''-'') @ js ''</td>''
     @ js ''</tr>''"

definition event_row :: "EventDoc \<Rightarrow> jsstring" where
  "event_row event =
     js ''<tr>''
     @ js ''<td><code>'' @ event_name event @ js ''</code></td>''
     @ js ''<td>''
       @ (case event_payload event of
            None \<Rightarrow> js ''-''
          | Some payload \<Rightarrow> js ''<code>'' @ td_type payload @ js ''</code>'')
       @ js ''</td>''
     @ js ''<td>'' @ or_else (event_description event) (js ''-'') @ js ''</td>''
     @ js ''</tr>''"

definition slot_row :: "SlotDoc \<Rightarrow> jsstring" where
  "slot_row slot =
     js ''<tr>''
     @ js ''<td><code>'' @ slot_name slot @ js ''</code></td>''
     @ js ''<td>'' @ (if slot_scoped slot = Some True then [10003] else js ''-'') @ js ''</td>''
     @ js ''<td>'' @ or_else (slot_description slot) (js ''-'') @ js ''</td>''
     @ js ''</tr>''"

definition renderComponentDoc :: "ComponentDoc \<Rightarrow> jsstring" where
  "renderComponentDoc component =
     js ''<div class=\"component-doc\">''
     @ js ''<h2>'' @ comp_name component @ js ''</h2>''
     @ (case comp_description component of
          None \<Rightarrow> []
        | Some description \<Rightarrow>
            if description = [] then []
            else js ''<p class=\"description\">'' @ description @ js ''</p>'')
     @ (case comp_props component of
          None \<Rightarrow> []
        | Some props \<Rightarrow>
            if props = [] then []
            else js ''<h3>Props</h3>''
              @ js ''<table class=\"props-table\">''
              @ js ''<thead><tr><th>'' @ [21517, 31216] @ js ''</th><th>'' @ [31867, 22411]
                @ js ''</th><th>'' @ [24517, 38656] @ js ''</th><th>'' @ [40664, 35748, 20540]
                @ js ''</th><th>'' @ [25551, 36848] @ js ''</th></tr></thead>''
              @ js ''<tbody>''
              @ concat (map prop_row props)
              @ js ''</tbody></table>'')
     @ (case comp_events component of
          None \<Rightarrow> []
        | Some events \<Rightarrow>
            if events = [] then []
            else js ''<h3>Events</h3>''
              @ js ''<table class=\"events-table\">''
              @ js ''<thead><tr><th>'' @ [20107, 20214, 21517] @ js ''</th><th>''
                @ [21442, 25968] @ js ''</th><th>'' @ [25551, 36848]
                @ js ''</th></tr></thead>''
              @ js ''<tbody>''
              @ concat (map event_row events)
              @ js ''</tbody></table>'')
     @ (case comp_slots component of
          None \<Rightarrow> []
        | Some slots \<Rightarrow>
            if slots = [] then []
            else js ''<h3>Slots</h3>''
              @ js ''<table class=\"slots-table\">''
              @ js ''<thead><tr><th>'' @ [25554, 27133, 21517] @ js ''</th><th>''
                @ [20316, 29992, 22495] @ js ''</th><th>'' @ [25551, 36848]
                @ js ''</th></tr></thead>''
              @ js ''<tbody>''
              @ concat (map slot_row slots)
              @ js ''</tbody></table>'')
     @ js ''</div>''"

subsection \<open>The generation batch\<close>

text \<open>The fields of the resolved configuration that the generator and the builder read.\<close>

record ResolvedDocsConfig =
  cfg_root :: jsstring
  cfg_docsDir :: jsstring
  cfg_componentsDir :: jsstring
  cfg_outDir :: jsstring

text \<open>
  What the generator calls and does not own: the files each glob pattern finds (in the
  order \<^verbatim>\<open>fast-glob\<close> returns them), \<^verbatim>\<open>fs.readFile\<close>, \<^verbatim>\<open>path.relative\<close>,
  the upper-case built-in, \<^verbatim>\<open>MarkdownProcessor.render\<close> (which catches what the
  renderer throws and returns a placeholder, so it always returns), and the three
  per-file extractors, each of which returns its result or throws.
\<close>

record World =
  w_glob_md :: "jsstring list"
  w_glob_api :: "jsstring list"
  w_glob_vue :: "jsstring list"
  w_glob_react :: "jsstring list"
  w_readFile :: "jsstring \<Rightarrow> js_error + jsstring"
  w_relative :: "jsstring \<Rightarrow> jsstring \<Rightarrow> jsstring"
  w_toUpperCase :: "jsstring \<Rightarrow> jsstring"
  w_render :: "jsstring \<Rightarrow> jsstring"
  w_parseTypeScriptFile :: "jsstring \<Rightarrow> js_error + ApiDocNode list"
  w_parseVueComponent :: "jsstring \<Rightarrow> js_error + ComponentDoc"
  w_parseReactComponent :: "jsstring \<Rightarrow> js_error + ComponentDoc"

text \<open>
  What a run does, in order, as far as the properties below observe it: the start of the
  work on one source file (the entry of the \<^verbatim>\<open>try\<close> block of a loop), the
  \<^verbatim>\<open>logger.error\<close> of its \<^verbatim>\<open>catch\<close>, and the call of a plugin's
  \<^verbatim>\<open>beforeGenerate\<close> or \<^verbatim>\<open>afterGenerate\<close> hook with its context.
\<close>

datatype 'rcfg event =
    FileStarted doc_type jsstring
  | FileFailed jsstring js_error
  | HookBeforeGenerate jsstring "'rcfg GenerateContext"
  | HookAfterGenerate jsstring "'rcfg GenerateContext"

text \<open>
  \<^verbatim>\<open>PluginManager.beforeGenerate\<close> and \<^verbatim>\<open>afterGenerate\<close>: every plugin that has
  the hook is called with the same context, in registration order; a hook that throws
  ends the loop.
\<close>

fun PluginManager_beforeGenerate ::
  "('cfg, 'rcfg) DocsPlugin list \<Rightarrow> 'rcfg GenerateContext \<Rightarrow> 'rcfg event list \<times> js_error option" where
  "PluginManager_beforeGenerate [] context = ([], None)"
| "PluginManager_beforeGenerate (plugin # plugins) context =
     (case plugin_beforeGenerate plugin of
        None \<Rightarrow> PluginManager_beforeGenerate plugins context
      | Some hook \<Rightarrow>
          (case hook context of
             Some e \<Rightarrow> ([HookBeforeGenerate (plugin_name plugin) context], Some e)
           | None \<Rightarrow>
               (let r = PluginManager_beforeGenerate plugins context
                in (HookBeforeGenerate (plugin_name plugin) context # fst r, snd r))))"

fun PluginManager_afterGenerate ::
  "('cfg, 'rcfg) DocsPlugin list \<Rightarrow> 'rcfg GenerateContext \<Rightarrow> 'rcfg event list \<times> js_error option" where
  "PluginManager_afterGenerate [] context = ([], None)"
| "PluginManager_afterGenerate (plugin # plugins) context =
     (case plugin_afterGenerate plugin of
        None \<Rightarrow> PluginManager_afterGenerate plugins context
      | Some hook \<Rightarrow>
          (case hook context of
             Some e \<Rightarrow> ([HookAfterGenerate (plugin_name plugin) context], Some e)
           | None \<Rightarrow>
               (let r = PluginManager_afterGenerate plugins context
                in (HookAfterGenerate (plugin_name plugin) context # fst r, snd r))))"

text \<open>
  The \<^verbatim>\<open>try\<close> block of \<^verbatim>\<open>generateMarkdownDocs\<close> for one file: read, transform,
  render, take the front matter of the text as read, derive the title.
\<close>

definition markdown_doc ::
  "World \<Rightarrow> ('cfg, 'rcfg) DocsPlugin list \<Rightarrow> 'c ResolvedDocsConfig_scheme \<Rightarrow> jsstring
     \<Rightarrow> js_error + DocNode" where
  "markdown_doc w plugins config file =
     (case w_readFile w file of
        Inl e \<Rightarrow> Inl e
      | Inr content \<Rightarrow>
          (case PluginManager_transformMarkdown plugins content file of
             Inl e \<Rightarrow> Inl e
           | Inr transformed \<Rightarrow>
               (let html = w_render w transformed;
                    fm = extractFrontmatter content;
                    relativePath = w_relative w (cfg_docsDir config) file
                in Inr \<lparr>doc_path = relativePath,
                        doc_title = (if fm_title fm \<noteq> [] then fm_title fm
                                     else getTitleFromPath (w_toUpperCase w) relativePath),
                        doc_content = html,
                        doc_type = Markdown,
                        doc_meta = fm_meta fm\<rparr>)))"

text \<open>
  A loop of the generator over its files: the \<^verbatim>\<open>try\<close> block either pushes a
  document, or pushes nothing (\<^verbatim>\<open>continue\<close>), or throws, and then the
  \<^verbatim>\<open>catch\<close> logs the failure and the loop goes on. The result is the trace and the
  documents pushed.
\<close>

fun file_loop ::
  "doc_type \<Rightarrow> (jsstring \<Rightarrow> js_error + DocNode option) \<Rightarrow> jsstring list
     \<Rightarrow> 'rcfg event list \<times> DocNode list" where
  "file_loop ty body [] = ([], [])"
| "file_loop ty body (file # files) =
     (let rest = file_loop ty body files
      in case body file of
           Inl e \<Rightarrow> (FileStarted ty file # FileFailed file e # fst rest, snd rest)
         | Inr None \<Rightarrow> (FileStarted ty file # fst rest, snd rest)
         | Inr (Some doc) \<Rightarrow> (FileStarted ty file # fst rest, doc # snd rest))"

definition generateMarkdownDocs ::
  "World \<Rightarrow> ('cfg, 'rcfg) DocsPlugin list \<Rightarrow> 'c ResolvedDocsConfig_scheme
     \<Rightarrow> 'rcfg event list \<times> DocNode list" where
  "generateMarkdownDocs w plugins config =
     file_loop Markdown (\<lambda>file. map_sum id Some (markdown_doc w plugins config file))
       (w_glob_md w)"

text \<open>\<^verbatim>\<open>relativePath.replace(/\.tsx?$/, '.html')\<close> and its two siblings.\<close>

definition replace_ext :: "jsstring list \<Rightarrow> jsstring \<Rightarrow> jsstring" where
  "replace_ext exts p =
     (case filter (\<lambda>ext. ends_with ext p) exts of
        [] \<Rightarrow> p
      | ext # _ \<Rightarrow> take (length p - length ext) p @ js ''.html'')"

definition api_doc :: "World \<Rightarrow> 'c ResolvedDocsConfig_scheme \<Rightarrow> jsstring \<Rightarrow> js_error + DocNode option" where
  "api_doc w config file =
     (case w_parseTypeScriptFile w file of
        Inl e \<Rightarrow> Inl e
      | Inr apiNodes \<Rightarrow>
          if apiNodes = [] then Inr None
          else (let html = renderApiDoc apiNodes;
                    relativePath = w_relative w (cfg_root config) file;
                    docPath = replace_ext [js ''.tsx'', js ''.ts''] relativePath
                in Inr (Some \<lparr>doc_path = js ''api/'' @ docPath,
                              doc_title = getTitleFromPath (w_toUpperCase w) relativePath,
                              doc_content = html,
                              doc_type = Api,
                              doc_meta = None\<rparr>)))"

definition generateApiDocs ::
  "World \<Rightarrow> 'c ResolvedDocsConfig_scheme \<Rightarrow> 'rcfg event list \<times> DocNode list" where
  "generateApiDocs w config = file_loop Api (api_doc w config) (w_glob_api w)"

definition component_doc ::
  "World \<Rightarrow> 'c ResolvedDocsConfig_scheme \<Rightarrow> (jsstring \<Rightarrow> js_error + ComponentDoc)
     \<Rightarrow> jsstring list \<Rightarrow> jsstring \<Rightarrow> js_error + DocNode option" where
  "component_doc w config parseComponent exts file =
     (case parseComponent file of
        Inl e \<Rightarrow> Inl e
      | Inr componentDoc \<Rightarrow>
          (let html = renderComponentDoc componentDoc;
               relativePath = w_relative w (cfg_componentsDir config) file;
               docPath = replace_ext exts relativePath
           in Inr (Some \<lparr>doc_path = js ''components/'' @ docPath,
                         doc_title = comp_name componentDoc,
                         doc_content = html,
                         doc_type = Component,
                         doc_meta = None\<rparr>)))"

definition generateComponentDocs ::
  "World \<Rightarrow> 'c ResolvedDocsConfig_scheme \<Rightarrow> 'rcfg event list \<times> DocNode list" where
  "generateComponentDocs w config =
     (let vue = file_loop Component
                  (component_doc w config (w_parseVueComponent w) [js ''.vue''])
                  (w_glob_vue w);
          react = file_loop Component
                    (component_doc w config (w_parseReactComponent w) [js ''.jsx'', js ''.tsx''])
                    (w_glob_react w)
      in (fst vue @ fst react, snd vue @ snd react))"

text \<open>
  \<^verbatim>\<open>DocGenerator.generate\<close>: the three categories, then the context, then the two
  hooks one after the other. The result is the trace and what the promise settles to:
  the documents, or the exception of a hook.
\<close>

definition generate ::
  "World \<Rightarrow> ('cfg, 'c ResolvedDocsConfig_scheme) DocsPlugin list \<Rightarrow> 'c ResolvedDocsConfig_scheme
     \<Rightarrow> 'c ResolvedDocsConfig_scheme event list \<times> (js_error + DocNode list)" where
  "generate w plugins config =
     (let markdownDocs = generateMarkdownDocs w plugins config;
          apiDocs = generateApiDocs w config;
          componentDocs = generateComponentDocs w config;
          docs = snd markdownDocs @ snd apiDocs @ snd componentDocs;
          trace = fst markdownDocs @ fst apiDocs @ fst componentDocs;
          context = \<lparr>ctx_config = config, ctx_files = map doc_path docs, ctx_docs = docs\<rparr>;
          before = PluginManager_beforeGenerate plugins context
      in case snd before of
           Some e \<Rightarrow> (trace @ fst before, Inl e)
         | None \<Rightarrow>
             (let after = PluginManager_afterGenerate plugins context
              in case snd after of
                   Some e \<Rightarrow> (trace @ fst before @ fst after, Inl e)
                 | None \<Rightarrow> (trace @ fst before @ fst after, Inr docs)))"

subsection \<open>Concrete runs\<close>


text \<open>
  A documents root \<^verbatim>\<open>/docs\<close> with the given prose files (path and text) and
  nothing else; \<^verbatim>\<open>path.relative\<close> of a file under the root drops the root and the
  slash, and the renderer is a stand-in that returns its input.
\<close>

definition prose_world :: "(jsstring \<times> jsstring) list \<Rightarrow> World" where
  "prose_world files =
     \<lparr>w_glob_md = map fst files, w_glob_api = [], w_glob_vue = [], w_glob_react = [],
      w_readFile = (\<lambda>f. case map_of files f of
                            None \<Rightarrow> Inl (JsError (js ''ENOENT''))
                          | Some text \<Rightarrow> Inr text),
      w_relative = (\<lambda>dir f. drop (length dir + 1) f),
      w_toUpperCase = ascii_toUpperCase,
      w_render = (\<lambda>s. s),
      w_parseTypeScriptFile = (\<lambda>f. Inl (JsError (js ''ENOENT''))),
      w_parseVueComponent = (\<lambda>f. Inl (JsError (js ''ENOENT''))),
      w_parseReactComponent = (\<lambda>f. Inl (JsError (js ''ENOENT'')))\<rparr>"

definition example_config :: ResolvedDocsConfig where
  "example_config =
     \<lparr>cfg_root = js ''/src'', cfg_docsDir = js ''/docs'',
      cfg_componentsDir = js ''/components'', cfg_outDir = js ''/dist''\<rparr>"

text \<open>\<^verbatim>\<open>index.md\<close> with front matter \<^verbatim>\<open>title: Home\<close> and the body \<^verbatim>\<open># Welcome\<close>.\<close>

definition home_text :: jsstring where
  "home_text = js ''---'' @ [10] @ js ''title: '' @ js ''Home'' @ 10 # js ''---'' @ 10 # js ''# Welcome''"


subsection \<open>Categories of source files\<close>







text \<open>A plugin that only observes: both generate hooks, neither throws.\<close>

definition observer_plugin :: "(unit, ResolvedDocsConfig) DocsPlugin" where
  "observer_plugin =
     \<lparr>plugin_name = js ''observer'', plugin_config = None, plugin_transformMarkdown = None,
      plugin_beforeGenerate = Some (\<lambda>_. None), plugin_afterGenerate = Some (\<lambda>_. None)\<rparr>"

text \<open>The context of the run over the one file \<^verbatim>\<open>index.md\<close> above.\<close>

definition home_context :: "ResolvedDocsConfig GenerateContext" where
  "home_context =
     \<lparr>ctx_config = example_config,
      ctx_files = [js ''index.md''],
      ctx_docs = [\<lparr>doc_path = js ''index.md'', doc_title = js ''Home'',
                   doc_content = home_text, doc_type = Markdown,
                   doc_meta = Some Map.empty\<rparr>]\<rparr>"


section \<open>Prose processor (markdown/processor.ts)\<close>

subsection \<open>encodeURIComponent\<close>

text \<open>
  The built-in \<^verbatim>\<open>encodeURIComponent\<close>: letters, digits and \<^verbatim>\<open>- _ . ! ~ * ' ( )\<close>
  stay; every other code point is written as the percent-encoded bytes of its UTF-8
  form; a surrogate without its partner makes it throw \<^verbatim>\<open>URIError\<close>.
\<close>

definition isAlnum :: "nat \<Rightarrow> bool" where
  "isAlnum c = ((48 \<le> c \<and> c \<le> 57) \<or> (65 \<le> c \<and> c \<le> 90) \<or> (97 \<le> c \<and> c \<le> 122))"

definition uriUnreserved :: "nat \<Rightarrow> bool" where
  "uriUnreserved c = (isAlnum c \<or> c \<in> set (js ''-_.!~*'' @ [39] @ js ''()''))"

definition hex_digit :: "nat \<Rightarrow> nat" where
  "hex_digit d = (if d < 10 then 48 + d else 55 + d)"

definition percent_byte :: "nat \<Rightarrow> jsstring" where
  "percent_byte b = [37, hex_digit (b div 16), hex_digit (b mod 16)]"

definition utf8 :: "nat \<Rightarrow> nat list" where
  "utf8 cp =
     (if cp < 128 then [cp]
      else if cp < 2048 then [192 + cp div 64, 128 + cp mod 64]
      else if cp < 65536 then [224 + cp div 4096, 128 + (cp div 64) mod 64, 128 + cp mod 64]
      else [240 + cp div 262144, 128 + (cp div 4096) mod 64, 128 + (cp div 64) mod 64,
            128 + cp mod 64])"

definition isLeadSurrogate :: "nat \<Rightarrow> bool" where
  "isLeadSurrogate c = (55296 \<le> c \<and> c \<le> 56319)"

definition isTrailSurrogate :: "nat \<Rightarrow> bool" where
  "isTrailSurrogate c = (56320 \<le> c \<and> c \<le> 57343)"

fun encodeURIComponent :: "jsstring \<Rightarrow> js_error + jsstring" where
  "encodeURIComponent [] = Inr []"
| "encodeURIComponent [c] =
     (if uriUnreserved c then Inr [c]
      else if isLeadSurrogate c \<or> isTrailSurrogate c then Inl URIError
      else Inr (concat (map percent_byte (utf8 c))))"
| "encodeURIComponent (c # d # cs) =
     (if uriUnreserved c then map_sum id ((#) c) (encodeURIComponent (d # cs))
      else if isTrailSurrogate c then Inl URIError
      else if isLeadSurrogate c then
        (if isTrailSurrogate d
         then map_sum id
                ((@) (concat (map percent_byte
                        (utf8 ((c - 55296) * 1024 + (d - 56320) + 65536)))))
                (encodeURIComponent cs)
         else Inl URIError)
      else map_sum id ((@) (concat (map percent_byte (utf8 c)))) (encodeURIComponent (d # cs)))"

subsection \<open>Slugs\<close>

text \<open>
  \<^verbatim>\<open>replace(/\s+/g, '-')\<close>: every maximal run of white space becomes one hyphen.
  \<open>in_run\<close> says that the previous code unit was white space, whose hyphen is already
  written.
\<close>

fun whitespace_to_hyphen :: "bool \<Rightarrow> jsstring \<Rightarrow> jsstring" where
  "whitespace_to_hyphen in_run [] = []"
| "whitespace_to_hyphen in_run (c # cs) =
     (if isWhiteSpace c
      then (if in_run then whitespace_to_hyphen True cs else 45 # whitespace_to_hyphen True cs)
      else c # whitespace_to_hyphen False cs)"

text \<open>The class \<^verbatim>\<open>[\w\-\u4e00-\u9fa5]\<close>: word characters, the hyphen and the CJK range.\<close>

definition isWordChar :: "nat \<Rightarrow> bool" where
  "isWordChar c = (isAlnum c \<or> c = 95)"

definition slugKeeps :: "nat \<Rightarrow> bool" where
  "slugKeeps c = (isWordChar c \<or> c = 45 \<or> (19968 \<le> c \<and> c \<le> 40869))"

text \<open>
  \<^verbatim>\<open>MarkdownProcessor.slugify\<close>, which \<^verbatim>\<open>extractHeaders\<close> applies to the text of a
  heading: trim, lower case, white space to hyphens, strip what is outside the class,
  percent-encode.
\<close>

definition slugify :: "(jsstring \<Rightarrow> jsstring) \<Rightarrow> jsstring \<Rightarrow> js_error + jsstring" where
  "slugify lc text =
     encodeURIComponent (filter slugKeeps (whitespace_to_hyphen False (lc (trim text))))"

text \<open>
  The \<^verbatim>\<open>slugify\<close> option that \<^verbatim>\<open>createMarkdownProcessor\<close> gives to the anchor
  plugin, which Render applies to the text of a heading: trim, lower case, white space
  to hyphens, percent-encode.
\<close>

definition anchor_slugify :: "(jsstring \<Rightarrow> jsstring) \<Rightarrow> jsstring \<Rightarrow> js_error + jsstring" where
  "anchor_slugify lc s = encodeURIComponent (whitespace_to_hyphen False (lc (trim s)))"

section \<open>Annotation extractor (parsers/typescript.ts)\<close>

subsection \<open>The syntax tree\<close>

text \<open>
  The tree that \<^verbatim>\<open>ts.createSourceFile\<close> returns, with what the extractor reads of a
  node: its kind, its name, its source text (\<^verbatim>\<open>getText\<close>), the line and character
  of its first token (\<^verbatim>\<open>getStart\<close>, which skips leading comments, through
  \<^verbatim>\<open>getLineAndCharacterOfPosition\<close>; both from 0), what \<^verbatim>\<open>getJSDocComment\<close>
  finds on it, the text of its type annotation, its question token and initializer, its
  parameters, members and declarations, and the children that \<^verbatim>\<open>ts.forEachChild\<close>
  visits, in order.
\<close>

datatype syntax_kind =
    SourceFile | FunctionDeclaration | ClassDeclaration | InterfaceDeclaration
  | TypeAliasDeclaration | VariableStatement | EnumDeclaration | MethodDeclaration
  | PropertyDeclaration | PropertySignature | VariableDeclaration | Parameter | Block
  | OtherSyntax





subsection \<open>One Annotation Node for one declaration\<close>



definition plain_type :: "jsstring \<Rightarrow> TypeDoc" where
  "plain_type t = \<lparr>td_name = t, td_type = t, td_isGeneric = None\<rparr>"



















subsection \<open>The walk\<close>





subsection \<open>The declarations of a tree\<close>









section \<open>Component extractor, composition style (parsers/vue.ts)\<close>

text \<open>
  What the extractor reads of the descriptor that the single-file-component parser
  returns: the text of the script block, of the script-setup block and of the
  template, each when the file has it.
\<close>

record SFCDescriptor =
  sfc_script :: "jsstring option"
  sfc_scriptSetup :: "jsstring option"
  sfc_template :: "jsstring option"

text \<open>\<^verbatim>\<open>descriptor.script?.content || descriptor.scriptSetup?.content || ''\<close>.\<close>

definition scriptContent :: "SFCDescriptor \<Rightarrow> jsstring" where
  "scriptContent d = or_else (sfc_script d) (or_else (sfc_scriptSetup d) [])"

subsection \<open>The typed prop block\<close>

text \<open>
  \<^verbatim>\<open>([^}]+)\<close> followed by a closing literal, at the text after an opening literal:
  the run of characters up to the first \<^verbatim>\<open>}\<close>, which must not be empty and must be
  followed by the closing literal.
\<close>

definition block_at :: "jsstring \<Rightarrow> jsstring \<Rightarrow> jsstring option" where
  "block_at closing rest =
     (let body = takeWhile (\<lambda>c. c \<noteq> 125) rest;
          after = dropWhile (\<lambda>c. c \<noteq> 125) rest
      in if body \<noteq> [] \<and> starts_with closing after then Some body else None)"

text \<open>
  The group of the leftmost match of an opening literal, \<^verbatim>\<open>([^}]+)\<close> and
  \<^verbatim>\<open>}>\<close> in a text.
\<close>

fun typed_block :: "jsstring \<Rightarrow> jsstring \<Rightarrow> jsstring option" where
  "typed_block opening [] = None"
| "typed_block opening (c # cs) =
     (if starts_with opening (c # cs)
      then (case block_at (js ''}>'') (drop (length opening) (c # cs)) of
              Some body \<Rightarrow> Some body
            | None \<Rightarrow> typed_block opening cs)
      else typed_block opening cs)"

text \<open>\<^verbatim>\<open>scriptContent.match(/defineProps<\{([^}]+)\}>/s)\<close>.\<close>

definition definePropsMatch :: "jsstring \<Rightarrow> jsstring option" where
  "definePropsMatch script = typed_block (js ''defineProps<{'') script"

text \<open>
  The end of \<^verbatim>\<open>/(\w+)\??:\s*([^;\n]+)/\<close> at the text after the colon: \<^verbatim>\<open>\s*\<close>
  takes \<open>k\<close> white-space characters, as many as it can and fewer when the group would
  otherwise be empty, and the group is the run up to the next semicolon or line break.
  The result is \<open>k\<close> and the group.
\<close>

definition type_run :: "jsstring \<Rightarrow> jsstring" where
  "type_run s = takeWhile (\<lambda>c. c \<noteq> 59 \<and> c \<noteq> 10) s"

fun type_after :: "nat \<Rightarrow> jsstring \<Rightarrow> (nat \<times> jsstring) option" where
  "type_after 0 rest = (if type_run rest \<noteq> [] then Some (0, type_run rest) else None)"
| "type_after (Suc k) rest =
     (if type_run (drop (Suc k) rest) \<noteq> [] then Some (Suc k, type_run (drop (Suc k) rest))
      else type_after k rest)"

text \<open>
  A match of the pattern that begins at the first character of the text: the name, the
  group of the type, and the whole matched text.
\<close>

definition prop_match_at :: "jsstring \<Rightarrow> (jsstring \<times> jsstring \<times> jsstring) option" where
  "prop_match_at s =
     (let name = takeWhile isWordChar s;
          r1 = drop (length name) s;
          mark = (if starts_with [63, 58] r1 then [63, 58]
                  else if starts_with [58] r1 then [58] else []);
          r2 = drop (length mark) r1
      in if name = [] \<or> mark = [] then None
         else (case type_after (length (takeWhile isWhiteSpace r2)) r2 of
                 None \<Rightarrow> None
               | Some (k, ty) \<Rightarrow> Some (name, ty, name @ mark @ take k r2 @ ty)))"

text \<open>
  \<^verbatim>\<open>matchAll\<close> with a pattern that matches \<open>at\<close> a position or not: the matches from
  left to right, the search going on after the end of each match. \<open>skip\<close> counts the
  characters that the last match still covers.
\<close>

fun match_all ::
  "(jsstring \<Rightarrow> ('a \<times> jsstring) option) \<Rightarrow> nat \<Rightarrow> jsstring \<Rightarrow> 'a list" where
  "match_all at skip [] = []"
| "match_all at (Suc skip) (c # cs) = match_all at skip cs"
| "match_all at 0 (c # cs) =
     (case at (c # cs) of
        None \<Rightarrow> match_all at 0 cs
      | Some (m, whole) \<Rightarrow> m # match_all at (length whole - 1) cs)"

text \<open>The object pushed for one match: \<^verbatim>\<open>required: !match[0].includes('?')\<close>.\<close>

definition typed_prop :: "jsstring \<times> jsstring \<times> jsstring \<Rightarrow> PropDoc" where
  "typed_prop m =
     (case m of (name, ty, whole) \<Rightarrow>
        \<lparr>prop_name = name, prop_type = TypeText (trim ty), prop_description = None,
         prop_required = Some (63 \<notin> set whole), prop_default = None\<rparr>)"

definition typed_props :: "jsstring \<Rightarrow> PropDoc list" where
  "typed_props propsContent =
     map typed_prop
       (match_all (\<lambda>s. map_option (\<lambda>m. (m, snd (snd m))) (prop_match_at s)) 0 propsContent)"

subsection \<open>The options-style prop object\<close>

text \<open>\<^verbatim>\<open>scriptContent.match(/props:\s*\{([^}]+)\}/s)\<close>: the group of the leftmost match.\<close>

fun propsObjectMatch :: "jsstring \<Rightarrow> jsstring option" where
  "propsObjectMatch [] = None"
| "propsObjectMatch (c # cs) =
     (if starts_with (js ''props:'') (c # cs)
      then (case dropWhile isWhiteSpace (drop 6 (c # cs)) of
              [] \<Rightarrow> propsObjectMatch cs
            | b # rest \<Rightarrow>
                if b = 123
                then (case block_at [125] rest of
                        Some body \<Rightarrow> Some body
                      | None \<Rightarrow> propsObjectMatch cs)
                else propsObjectMatch cs)
      else propsObjectMatch cs)"

text \<open>
  A match of \<^verbatim>\<open>/(\w+):\s*\{([^}]+)\}/\<close> that begins at the first character: the
  name, the definition between the braces, and the whole matched text.
\<close>

definition option_match_at :: "jsstring \<Rightarrow> (jsstring \<times> jsstring \<times> jsstring) option" where
  "option_match_at s =
     (let name = takeWhile isWordChar s;
          r1 = drop (length name) s;
          ws = takeWhile isWhiteSpace (drop 1 r1);
          r2 = dropWhile isWhiteSpace (drop 1 r1)
      in if name \<noteq> [] \<and> starts_with [58] r1 \<and> starts_with [123] r2
         then (case block_at [125] (drop 1 r2) of
                 None \<Rightarrow> None
               | Some propDef \<Rightarrow>
                   Some (name, propDef, name @ [58] @ ws @ [123] @ propDef @ [125]))
         else None)"

text \<open>\<^verbatim>\<open>propDef.match(/type:\s*(\w+)/)\<close>.\<close>

fun typeMatch :: "jsstring \<Rightarrow> jsstring option" where
  "typeMatch [] = None"
| "typeMatch (c # cs) =
     (if starts_with (js ''type:'') (c # cs)
         \<and> takeWhile isWordChar (dropWhile isWhiteSpace (drop 5 (c # cs))) \<noteq> []
      then Some (takeWhile isWordChar (dropWhile isWhiteSpace (drop 5 (c # cs))))
      else typeMatch cs)"

text \<open>\<^verbatim>\<open>propDef.match(/required:\s*(true|false)/)\<close>.\<close>

fun requiredMatch :: "jsstring \<Rightarrow> jsstring option" where
  "requiredMatch [] = None"
| "requiredMatch (c # cs) =
     (if starts_with (js ''required:'') (c # cs)
      then (if starts_with (js ''true'') (dropWhile isWhiteSpace (drop 9 (c # cs)))
            then Some (js ''true'')
            else if starts_with (js ''false'') (dropWhile isWhiteSpace (drop 9 (c # cs)))
            then Some (js ''false'')
            else requiredMatch cs)
      else requiredMatch cs)"

text \<open>
  \<^verbatim>\<open>propDef.match(/default:\s*(.+?)(?:,|$)/)\<close>: the group is the shortest non-empty
  run without a line terminator that ends before a comma or at the end of the text;
  \<^verbatim>\<open>\s*\<close> gives characters back when there is no such run after it.
\<close>

definition isLineTerminator :: "nat \<Rightarrow> bool" where
  "isLineTerminator c = (c = 10 \<or> c = 13 \<or> c = 8232 \<or> c = 8233)"

fun lazy_value :: "jsstring \<Rightarrow> jsstring option" where
  "lazy_value [] = None"
| "lazy_value (c # cs) =
     (if isLineTerminator c then None
      else if cs = [] \<or> starts_with [44] cs then Some [c]
      else map_option ((#) c) (lazy_value cs))"

fun default_after :: "nat \<Rightarrow> jsstring \<Rightarrow> jsstring option" where
  "default_after 0 rest = lazy_value rest"
| "default_after (Suc k) rest =
     (case lazy_value (drop (Suc k) rest) of
        Some v \<Rightarrow> Some v
      | None \<Rightarrow> default_after k rest)"

fun defaultMatch :: "jsstring \<Rightarrow> jsstring option" where
  "defaultMatch [] = None"
| "defaultMatch (c # cs) =
     (if starts_with (js ''default:'') (c # cs)
      then (case default_after (length (takeWhile isWhiteSpace (drop 8 (c # cs))))
                   (drop 8 (c # cs)) of
              Some v \<Rightarrow> Some v
            | None \<Rightarrow> defaultMatch cs)
      else defaultMatch cs)"

definition option_prop :: "jsstring \<times> jsstring \<times> jsstring \<Rightarrow> PropDoc" where
  "option_prop m =
     (case m of (name, propDef, whole) \<Rightarrow>
        \<lparr>prop_name = name,
         prop_type = TypeText (case typeMatch propDef of None \<Rightarrow> js ''any'' | Some t \<Rightarrow> t),
         prop_description = None,
         prop_required = Some (requiredMatch propDef = Some (js ''true'')),
         prop_default = map_option trim (defaultMatch propDef)\<rparr>)"

definition option_props :: "jsstring \<Rightarrow> PropDoc list" where
  "option_props propsContent =
     map option_prop
       (match_all (\<lambda>s. map_option (\<lambda>m. (m, snd (snd m))) (option_match_at s)) 0 propsContent)"

subsection \<open>extractProps\<close>

definition extractProps :: "SFCDescriptor \<Rightarrow> PropDoc list" where
  "extractProps descriptor =
     (if sfc_script descriptor = None \<and> sfc_scriptSetup descriptor = None then []
      else (case definePropsMatch (scriptContent descriptor) of
              None \<Rightarrow> []
            | Some propsContent \<Rightarrow> typed_props propsContent)
           @ (case propsObjectMatch (scriptContent descriptor) of
                None \<Rightarrow> []
              | Some propsContent \<Rightarrow> option_props propsContent))"

subsection \<open>extractEvents\<close>

text \<open>\<^verbatim>\<open>scriptContent.match(/defineEmits<\{([^}]+)\}>/s)\<close>.\<close>

definition defineEmitsMatch :: "jsstring \<Rightarrow> jsstring option" where
  "defineEmitsMatch script = typed_block (js ''defineEmits<{'') script"

text \<open>
  A match of \<^verbatim>\<open>/(\w+):\s*\[([^\]]*)\]/\<close> that begins at the first character: the
  name and the payload between the brackets, and the whole matched text.
\<close>

definition emit_match_at :: "jsstring \<Rightarrow> ((jsstring \<times> jsstring) \<times> jsstring) option" where
  "emit_match_at s =
     (let name = takeWhile isWordChar s;
          r1 = drop (length name) s;
          ws = takeWhile isWhiteSpace (drop 1 r1);
          r2 = dropWhile isWhiteSpace (drop 1 r1);
          payload = takeWhile (\<lambda>c. c \<noteq> 93) (drop 1 r2)
      in if name \<noteq> [] \<and> starts_with [58] r1 \<and> starts_with [91] r2
            \<and> dropWhile (\<lambda>c. c \<noteq> 93) (drop 1 r2) \<noteq> []
         then Some ((name, payload), name @ [58] @ ws @ [91] @ payload @ [93])
         else None)"

definition typed_event :: "jsstring \<times> jsstring \<Rightarrow> EventDoc" where
  "typed_event m =
     (case m of (name, payload) \<Rightarrow>
        \<lparr>event_name = name, event_description = None,
         event_payload = (if payload = [] then None
                          else Some (plain_type (trim payload)))\<rparr>)"

text \<open>
  A match of \<^verbatim>\<open>/\$emit\(['"](\w+)['"]/\<close> that begins at the first character: the
  name, and the whole matched text.
\<close>

definition emit_call_at :: "jsstring \<Rightarrow> (jsstring \<times> jsstring) option" where
  "emit_call_at s =
     (let r1 = drop 6 s;
          name = takeWhile isWordChar (drop 1 r1);
          r2 = drop (length name) (drop 1 r1)
      in if starts_with (js ''$emit('') s \<and> r1 \<noteq> [] \<and> isQuote (hd r1) \<and> name \<noteq> []
            \<and> r2 \<noteq> [] \<and> isQuote (hd r2)
         then Some (name, js ''$emit('' @ [hd r1] @ name @ [hd r2])
         else None)"

text \<open>The loop over the \<^verbatim>\<open>$emit\<close> calls: a name is pushed when no event has it yet.\<close>

fun emit_calls_loop :: "EventDoc list \<Rightarrow> jsstring list \<Rightarrow> EventDoc list" where
  "emit_calls_loop events [] = events"
| "emit_calls_loop events (name # names) =
     (if list_ex (\<lambda>e. event_name e = name) events then emit_calls_loop events names
      else emit_calls_loop
             (events @ [\<lparr>event_name = name, event_description = None, event_payload = None\<rparr>])
             names)"

definition extractEvents :: "SFCDescriptor \<Rightarrow> EventDoc list" where
  "extractEvents descriptor =
     (if sfc_script descriptor = None \<and> sfc_scriptSetup descriptor = None then []
      else emit_calls_loop
             (case defineEmitsMatch (scriptContent descriptor) of
                None \<Rightarrow> []
              | Some emitsContent \<Rightarrow> map typed_event (match_all emit_match_at 0 emitsContent))
             (match_all emit_call_at 0 (scriptContent descriptor)))"

subsection \<open>extractSlots\<close>

text \<open>\<^verbatim>\<open>attrs.includes(part)\<close>.\<close>

fun str_includes :: "jsstring \<Rightarrow> jsstring \<Rightarrow> bool" where
  "str_includes [] part = (part = [])"
| "str_includes (c # cs) part = (starts_with part (c # cs) \<or> str_includes cs part)"

text \<open>
  The optional group \<^verbatim>\<open>(?:name=["'](\w+)["'])?\<close> at the start of a text: the name
  and the length of the group, when it matches.
\<close>

definition slot_name_at :: "jsstring \<Rightarrow> (jsstring \<times> nat) option" where
  "slot_name_at s =
     (let r1 = drop 5 s;
          name = takeWhile isWordChar (drop 1 r1);
          r2 = drop (length name) (drop 1 r1)
      in if starts_with (js ''name='') s \<and> r1 \<noteq> [] \<and> isQuote (hd r1) \<and> name \<noteq> []
            \<and> r2 \<noteq> [] \<and> isQuote (hd r2)
         then Some (name, 5 + 1 + length name + 1)
         else None)"

text \<open>
  A match of \<^verbatim>\<open>/<slot\s+(?:name=["'](\w+)["'])?([^>]*)>/\<close> that begins at the first
  character: the name when there is one, the attributes, and the whole matched text.
\<close>

definition slot_match_at :: "jsstring \<Rightarrow> ((jsstring option \<times> jsstring) \<times> jsstring) option" where
  "slot_match_at s =
     (let ws = takeWhile isWhiteSpace (drop 5 s);
          r1 = dropWhile isWhiteSpace (drop 5 s);
          named = slot_name_at r1;
          r2 = (case named of None \<Rightarrow> r1 | Some (name, n) \<Rightarrow> drop n r1);
          attrs = takeWhile (\<lambda>c. c \<noteq> 62) r2
      in if starts_with (js ''<slot'') s \<and> ws \<noteq> [] \<and> dropWhile (\<lambda>c. c \<noteq> 62) r2 \<noteq> []
         then Some ((map_option fst named, attrs),
                    take (5 + length ws + (length r1 - length r2) + length attrs + 1) s)
         else None)"

text \<open>The loop over the slot markers: a slot is pushed when no slot has its name yet.\<close>

fun slots_loop :: "SlotDoc list \<Rightarrow> (jsstring option \<times> jsstring) list \<Rightarrow> SlotDoc list" where
  "slots_loop slots [] = slots"
| "slots_loop slots (m # ms) =
     (let slotName = (case fst m of None \<Rightarrow> js ''default'' | Some name \<Rightarrow> name);
          scoped = (str_includes (snd m) [58] \<or> str_includes (snd m) (js ''v-bind''))
      in if list_ex (\<lambda>s. slot_name s = slotName) slots then slots_loop slots ms
         else slots_loop
                (slots @ [\<lparr>slot_name = slotName, slot_description = None,
                            slot_scoped = Some scoped\<rparr>])
                ms)"

definition extractSlots :: "SFCDescriptor \<Rightarrow> SlotDoc list" where
  "extractSlots descriptor =
     (case sfc_template descriptor of
        None \<Rightarrow> []
      | Some templateContent \<Rightarrow> slots_loop [] (match_all slot_match_at 0 templateContent))"

section \<open>Component extractor, JSX style (parsers/react.ts)\<close>

text \<open>
  \<^verbatim>\<open>deduplicateProps\<close>: the \<^verbatim>\<open>filter\<close> with the set \<open>seen\<close> of the names met so
  far.
\<close>

fun deduplicate_loop :: "jsstring set \<Rightarrow> PropDoc list \<Rightarrow> PropDoc list" where
  "deduplicate_loop seen [] = []"
| "deduplicate_loop seen (prop # props) =
     (if prop_name prop \<in> seen then deduplicate_loop seen props
      else prop # deduplicate_loop (insert (prop_name prop) seen) props)"

definition deduplicateProps :: "PropDoc list \<Rightarrow> PropDoc list" where
  "deduplicateProps props = deduplicate_loop {} props"

section \<open>Concrete component files\<close>

text \<open>A component with only a script-setup block.\<close>

definition setup_only :: "jsstring \<Rightarrow> SFCDescriptor" where
  "setup_only script = \<lparr>sfc_script = None, sfc_scriptSetup = Some script, sfc_template = None\<rparr>"



text \<open>
  A block with one prop and a comment above it:
  \<^verbatim>\<open>defineProps<{\<close>, \<^verbatim>\<open>  // text: the label\<close>, \<^verbatim>\<open>  text: string\<close>, \<^verbatim>\<open>}>()\<close>.
\<close>

definition commented_script :: jsstring where
  "commented_script =
     js ''defineProps<{'' @ [10] @ js ''  // text: the label'' @ [10] @ js ''  text: string''
     @ [10] @ js ''}>()''"

section \<open>Site builder (builder/build.ts)\<close>

subsection \<open>path.join\<close>




subsection \<open>Pages\<close>







section \<open>Verified properties\<close>

subsection \<open>Plugin chain\<close>

lemma foldl_config_step_Inl: "foldl config_step (Inl e) ps = Inl e"
  by (induction ps) (simp_all add: config_step_def)

lemma foldl_transform_step_Inl: "foldl (transform_step file) (Inl e) ps = Inl e"
  by (induction ps) (simp_all add: transform_step_def)

lemma config_step_Inr:
  "config_step (Inr c) p =
     (case plugin_config p of
        None \<Rightarrow> Inr c
      | Some hook \<Rightarrow>
          (case hook c of Inl e \<Rightarrow> Inl e | Inr None \<Rightarrow> Inr c | Inr (Some c') \<Rightarrow> Inr c'))"
  by (simp add: config_step_def)

lemma transform_step_Inr:
  "transform_step file (Inr s) p =
     (case plugin_transformMarkdown p of None \<Rightarrow> Inr s | Some hook \<Rightarrow> hook s file)"
  by (simp add: transform_step_def)

lemma PluginManager_config_foldl:
  "PluginManager_config ps c = foldl config_step (Inr c) ps"
proof (induction ps arbitrary: c)
  case Nil
  show ?case by simp
next
  case (Cons p ps)
  show ?case
    by (simp add: Cons.IH config_step_Inr foldl_config_step_Inl
        split: option.splits sum.splits)
qed

lemma PluginManager_transformMarkdown_foldl:
  "PluginManager_transformMarkdown ps s file = foldl (transform_step file) (Inr s) ps"
proof (induction ps arbitrary: s)
  case Nil
  show ?case by simp
next
  case (Cons p ps)
  show ?case
    by (simp add: Cons.IH transform_step_Inr foldl_transform_step_Inl
        split: option.splits sum.splits)
qed

lemma registerBatch_append: "registerBatch plugins new = plugins @ new"
  by (induction new arbitrary: plugins) (simp_all add: registerBatch_def register_def)

text \<open>
  C7. For every list of registered plugins and every input, \<^verbatim>\<open>PluginManager.config\<close>
  and \<^verbatim>\<open>PluginManager.transformMarkdown\<close> equal the left-to-right fold of the
  plugins' hooks in registration order (the order of \<^verbatim>\<open>registerBatch\<close>); a plugin
  that lacks the hook is a no-op and not an error (with no hook at all the input comes
  back), and a \<^verbatim>\<open>config\<close> hook that returns nothing leaves the running
  configuration unchanged.
\<close>

theorem C7_plugin_chain_is_left_fold:
  "PluginManager_config ps c = foldl config_step (Inr c) ps
   \<and> PluginManager_transformMarkdown ps s file = foldl (transform_step file) (Inr s) ps
   \<and> PluginManager_config (registerBatch [] ps) c = foldl config_step (Inr c) ps
   \<and> PluginManager_transformMarkdown (registerBatch [] ps) s file
       = foldl (transform_step file) (Inr s) ps
   \<and> PluginManager_config (p\<lparr>plugin_config := None\<rparr> # ps) c = PluginManager_config ps c
   \<and> PluginManager_transformMarkdown (p\<lparr>plugin_transformMarkdown := None\<rparr> # ps) s file
       = PluginManager_transformMarkdown ps s file
   \<and> PluginManager_config (map (\<lambda>q. q\<lparr>plugin_config := None\<rparr>) ps) c = Inr c
   \<and> PluginManager_transformMarkdown (map (\<lambda>q. q\<lparr>plugin_transformMarkdown := None\<rparr>) ps) s file
       = Inr s
   \<and> PluginManager_config (p\<lparr>plugin_config := Some (\<lambda>_. Inr None)\<rparr> # ps) c
       = PluginManager_config ps c"
proof -
  have a: "PluginManager_config (map (\<lambda>q. q\<lparr>plugin_config := None\<rparr>) ps) c = Inr c"
    by (induction ps) simp_all
  have b: "PluginManager_transformMarkdown
             (map (\<lambda>q. q\<lparr>plugin_transformMarkdown := None\<rparr>) ps) s file = Inr s"
    by (induction ps) simp_all
  show ?thesis
    using a b
    by (simp add: registerBatch_append PluginManager_config_foldl [symmetric]
        PluginManager_transformMarkdown_foldl [symmetric])
qed

subsection \<open>Titles of prose documents\<close>












subsection \<open>Failing files and the batch\<close>


lemma markdown_doc_globs [simp]:
  "markdown_doc (w\<lparr>w_glob_md := fs\<rparr>) plugins config = markdown_doc w plugins config"
  "markdown_doc (w\<lparr>w_glob_api := fs\<rparr>) plugins config = markdown_doc w plugins config"
  "markdown_doc (w\<lparr>w_glob_vue := fs\<rparr>) plugins config = markdown_doc w plugins config"
  "markdown_doc (w\<lparr>w_glob_react := fs\<rparr>) plugins config = markdown_doc w plugins config"
  by (auto simp: markdown_doc_def Let_def fun_eq_iff split: sum.splits)

lemma api_doc_globs [simp]:
  "api_doc (w\<lparr>w_glob_md := fs\<rparr>) config = api_doc w config"
  "api_doc (w\<lparr>w_glob_api := fs\<rparr>) config = api_doc w config"
  "api_doc (w\<lparr>w_glob_vue := fs\<rparr>) config = api_doc w config"
  "api_doc (w\<lparr>w_glob_react := fs\<rparr>) config = api_doc w config"
  by (auto simp: api_doc_def Let_def fun_eq_iff split: sum.splits)

lemma component_doc_globs [simp]:
  "component_doc (w\<lparr>w_glob_md := fs\<rparr>) config = component_doc w config"
  "component_doc (w\<lparr>w_glob_api := fs\<rparr>) config = component_doc w config"
  "component_doc (w\<lparr>w_glob_vue := fs\<rparr>) config = component_doc w config"
  "component_doc (w\<lparr>w_glob_react := fs\<rparr>) config = component_doc w config"
  by (auto simp: component_doc_def Let_def fun_eq_iff split: sum.splits)












subsection \<open>Order of the generate hooks\<close>

lemma home_frontmatter:
  "extractFrontmatter home_text = \<lparr>fm_title = js ''Home'', fm_meta = Some Map.empty\<rparr>"
  by (simp add: extractFrontmatter_def home_text_def starts_with_def js_def
      frontmatter_line_def trim_def isWhiteSpace_def strip_quotes_def isQuote_def)

text \<open>
  C3. The claim is that every \<^verbatim>\<open>beforeGenerate\<close> hook is invoked before any source
  file is extracted or rendered and every \<^verbatim>\<open>afterGenerate\<close> hook after the batch.
  The run over the one file \<^verbatim>\<open>index.md\<close> with one observing plugin shows what
  \<^verbatim>\<open>generate\<close> does: the file is processed first, then \<^verbatim>\<open>beforeGenerate\<close> is
  called, with the completed documents in its context, and \<^verbatim>\<open>afterGenerate\<close> right
  after it.
\<close>

theorem C3_hooks_run_after_the_batch:
  "fst (generate (prose_world [(js ''/docs/index.md'', home_text)]) [observer_plugin]
         example_config)
   = [FileStarted Markdown (js ''/docs/index.md''),
      HookBeforeGenerate (js ''observer'') home_context,
      HookAfterGenerate (js ''observer'') home_context]"
  by (simp add: generate_def generateMarkdownDocs_def generateApiDocs_def
      generateComponentDocs_def markdown_doc_def prose_world_def observer_plugin_def
      home_context_def home_frontmatter example_config_def Let_def js_def)

subsection \<open>Escaping on API pages\<close>










subsection \<open>Heading slugs\<close>

text \<open>
  On a heading whose trimmed, lower-cased text has only characters of the class and
  white space, the two slug functions agree.
\<close>

lemma whitespace_to_hyphen_kept:
  "list_all (\<lambda>c. slugKeeps c \<or> isWhiteSpace c) s \<Longrightarrow>
   filter slugKeeps (whitespace_to_hyphen b s) = whitespace_to_hyphen b s"
  by (induction b s rule: whitespace_to_hyphen.induct) (auto simp: slugKeeps_def)

lemma slugs_agree_on_clean_text:
  "list_all (\<lambda>c. slugKeeps c \<or> isWhiteSpace c) (lc (trim s)) \<Longrightarrow>
   slugify lc s = anchor_slugify lc s"
  by (simp add: slugify_def anchor_slugify_def whitespace_to_hyphen_kept)

text \<open>
  C2. The claim is that the anchor slug of Render and the slug of
  \<^verbatim>\<open>extractHeaders\<close> are equal for the same heading text, both following trim,
  lower case, white space to a hyphen, strip outside the class, percent-encode. On the
  heading \<^verbatim>\<open>Hello, World!\<close> the anchor slug keeps the comma (percent-encoded) and
  the exclamation mark, which the slug of \<^verbatim>\<open>extractHeaders\<close> strips: the anchor
  function has no strip step.
\<close>

theorem C2_slugs_of_the_two_paths_differ:
  "anchor_slugify ascii_toLowerCase (js ''Hello, World!'') = Inr (js ''hello%2C-world!'')
   \<and> slugify ascii_toLowerCase (js ''Hello, World!'') = Inr (js ''hello-world'')
   \<and> js ''hello%2C-world!'' \<noteq> js ''hello-world''"
  by (simp add: anchor_slugify_def slugify_def trim_def isWhiteSpace_def ascii_toLowerCase_def
      js_def uriUnreserved_def isAlnum_def slugKeeps_def isWordChar_def isLeadSurrogate_def
      isTrailSurrogate_def utf8_def percent_byte_def hex_digit_def)

subsection \<open>Annotation nodes of a file\<close>









subsection \<open>Props of a composition-style component\<close>







lemma block_at_no_brace:
  assumes "closing \<noteq> []" and "125 \<notin> set rest"
  shows "block_at closing rest = None"
proof -
  have dw: "dropWhile (\<lambda>c. c \<noteq> 125) rest = []"
    using assms(2) by (induction rest) auto
  show ?thesis
    unfolding block_at_def Let_def dw using assms(1) by (simp add: starts_with_def)
qed

lemma option_match_at_no_brace: "125 \<notin> set s \<Longrightarrow> option_match_at s = None"
proof -
  assume a: "125 \<notin> set s"
  have "125 \<notin> set (drop 1 (dropWhile isWhiteSpace (drop 1 (drop (length (takeWhile isWordChar s)) s))))"
    using a by (meson in_set_dropD set_dropWhileD)
  then show ?thesis
    by (simp add: option_match_at_def Let_def block_at_no_brace)
qed

lemma option_props_no_brace: "125 \<notin> set s \<Longrightarrow> option_props s = []"
proof -
  have "125 \<notin> set s \<Longrightarrow> match_all (\<lambda>s. map_option f (option_match_at s)) k s = []" for f k
    by (induction "(\<lambda>s. map_option f (option_match_at s))" k s rule: match_all.induct)
      (simp_all add: option_match_at_no_brace)
  then show "125 \<notin> set s \<Longrightarrow> option_props s = []"
    by (simp add: option_props_def)
qed

lemma block_at_body: "block_at closing rest = Some body \<Longrightarrow> 125 \<notin> set body"
  by (auto simp: block_at_def Let_def split: if_splits dest: set_takeWhileD)

lemma propsObjectMatch_body: "propsObjectMatch s = Some body \<Longrightarrow> 125 \<notin> set body"
  by (induction s rule: propsObjectMatch.induct)
    (auto split: if_splits list.splits option.splits dest: block_at_body)

lemma options_branch_is_empty:
  "(case propsObjectMatch s of None \<Rightarrow> [] | Some propsContent \<Rightarrow> option_props propsContent) = []"
  by (auto split: option.splits dest: propsObjectMatch_body simp: option_props_no_brace)












subsection \<open>Duplicate names\<close>

text \<open>
  The slots of a composition-style component have distinct names, and the loop over
  the \<^verbatim>\<open>$emit\<close> calls adds no name that an event already has and keeps the events
  it starts from.
\<close>

lemma slots_loop_distinct:
  "distinct (map slot_name slots) \<Longrightarrow> distinct (map slot_name (slots_loop slots ms))"
proof (induction ms arbitrary: slots)
  case Nil
  then show ?case by simp
next
  case (Cons m ms)
  define slotName where "slotName = (case fst m of None \<Rightarrow> js ''default'' | Some name \<Rightarrow> name)"
  show ?case
  proof (cases "list_ex (\<lambda>s. slot_name s = slotName) slots")
    case True
    then show ?thesis
      using Cons.IH [OF Cons.prems] by (simp add: Let_def slotName_def)
  next
    case False
    then have "distinct (map slot_name (slots @ [\<lparr>slot_name = slotName,
        slot_description = None,
        slot_scoped = Some (str_includes (snd m) [58] \<or> str_includes (snd m) (js ''v-bind''))\<rparr>]))"
      using Cons.prems by (auto simp: list_ex_iff)
    then show ?thesis
      using False Cons.IH by (simp add: Let_def slotName_def)
  qed
qed

lemma extractSlots_distinct: "distinct (map slot_name (extractSlots descriptor))"
  by (simp add: extractSlots_def slots_loop_distinct split: option.splits)

lemma emit_calls_loop_distinct:
  "distinct (map event_name events) \<Longrightarrow> distinct (map event_name (emit_calls_loop events names))"
proof (induction names arbitrary: events)
  case Nil
  then show ?case by simp
next
  case (Cons name names)
  show ?case
  proof (cases "list_ex (\<lambda>e. event_name e = name) events")
    case True
    then show ?thesis
      using Cons.IH [OF Cons.prems] by simp
  next
    case False
    then have "distinct (map event_name
        (events @ [\<lparr>event_name = name, event_description = None, event_payload = None\<rparr>]))"
      using Cons.prems by (auto simp: list_ex_iff)
    then show ?thesis
      using False Cons.IH by simp
  qed
qed

lemma emit_calls_loop_keeps: "\<exists>new. emit_calls_loop events names = events @ new"
proof (induction names arbitrary: events)
  case Nil
  show ?case by simp
next
  case (Cons name names)
  show ?case
    using Cons.IH [of events]
      Cons.IH [of "events @ [\<lparr>event_name = name, event_description = None, event_payload = None\<rparr>]"]
    by auto
qed

text \<open>
  The JSX-style extractor removes duplicates: the names that \<^verbatim>\<open>deduplicateProps\<close>
  returns are distinct, and for every name the first prop of that name is kept.
\<close>

lemma deduplicate_loop_names:
  "distinct (map prop_name (deduplicate_loop seen props))
   \<and> set (map prop_name (deduplicate_loop seen props)) \<inter> seen = {}"
  by (induction seen props rule: deduplicate_loop.induct) auto

lemma deduplicateProps_distinct: "distinct (map prop_name (deduplicateProps props))"
  by (simp add: deduplicateProps_def deduplicate_loop_names)

lemma deduplicate_loop_first:
  "n \<notin> seen \<Longrightarrow>
   find (\<lambda>p. prop_name p = n) (deduplicate_loop seen props) = find (\<lambda>p. prop_name p = n) props"
  by (induction seen props rule: deduplicate_loop.induct) auto

lemma deduplicateProps_first_wins:
  "find (\<lambda>p. prop_name p = n) (deduplicateProps props) = find (\<lambda>p. prop_name p = n) props"
  by (simp add: deduplicateProps_def deduplicate_loop_first)

text \<open>
  C5. The claim is that the props, events and slots of every Component Description have
  pairwise distinct names, the first occurrence winning. The composition-style
  extractor pushes every match of the typed prop block: a block with the prop
  \<^verbatim>\<open>text\<close> and a comment line \<^verbatim>\<open>// text: the label\<close> above it yields two props
  named \<^verbatim>\<open>text\<close>.
\<close>

theorem C5_duplicate_prop_names:
  "map (\<lambda>p. (prop_name p, prop_type p)) (extractProps (setup_only commented_script))
   = [(js ''text'', TypeText (js ''the label'')), (js ''text'', TypeText (js ''string''))]
   \<and> \<not> distinct (map prop_name (extractProps (setup_only commented_script)))"
  by (simp add: extractProps_def setup_only_def scriptContent_def or_else_def
      commented_script_def js_def starts_with_def block_at_def typed_props_def typed_prop_def
      prop_match_at_def isWordChar_def isAlnum_def isWhiteSpace_def type_run_def trim_def
      Let_def options_branch_is_empty definePropsMatch_def)


subsection \<open>Pages with the same output path\<close>





end
